theory Spec2Isabelle
  imports Complex_Main "HOL-Library.Sublist"
begin

section \<open>Data model\<close>

text \<open>
  The three document types of the shop (accounts, products, orders) with the fields the
  route handlers read and write. JavaScript numbers are modelled exactly: a price is a
  rational, a quantity an integer; rounding of IEEE doubles is outside the model. An
  ObjectId is a natural number. Role and status are the strings the handlers compare.
\<close>

type_synonym objectid = nat

type_synonym 'a collection = "(objectid \<times> 'a) list"

record user =
  u_name :: string
  u_email :: string
  u_password :: string
  u_role :: string

record product =
  p_name :: string
  p_price :: rat
  p_description :: string
  p_color :: string
  p_quantity :: int

record order_item =
  i_productId :: objectid
  i_name :: string
  i_price :: rat
  i_quantity :: int

record order =
  o_userId :: objectid
  o_products :: "order_item list"
  o_totalAmount :: rat
  o_shippingAddress :: string
  o_status :: string

record db =
  users :: "user collection"
  products :: "product collection"
  orders :: "order collection"

text \<open>One element of \<^verbatim>\<open>req.body.products\<close> of the buy request.\<close>

record line_request =
  productId :: objectid
  quantity :: int

text \<open>
  The body of a product update: the fields present in \<^verbatim>\<open>req.body\<close> are set, the others
  are left as they are.
\<close>

record product_patch =
  set_name :: "string option"
  set_price :: "rat option"
  set_description :: "string option"
  set_color :: "string option"
  set_quantity :: "int option"

text \<open>
  The query string of the search. A text parameter is the string sent, if any. A price
  bound is \<open>None\<close> when the parameter is absent or empty, and otherwise the number that
  \<^verbatim>\<open>Number(...)\<close> reads from it; strings that are not numerals are outside the model.
\<close>

record search_query =
  q_name :: "string option"
  q_minPrice :: "rat option"
  q_maxPrice :: "rat option"
  q_color :: "string option"

text \<open>
  The library calls of the handlers, as parameters of the model: \<^verbatim>\<open>bcrypt.hash\<close> (with the salt
  it draws at the call), \<^verbatim>\<open>bcrypt.compare\<close>, \<^verbatim>\<open>jwt.sign\<close> of a user id and a role, and
  \<^verbatim>\<open>jwt.verify\<close>, which gives the user id of the payload or throws (\<open>None\<close>).
\<close>

record env =
  bcrypt_hash :: "string \<Rightarrow> string"
  bcrypt_compare :: "string \<Rightarrow> string \<Rightarrow> bool"
  jwt_sign :: "objectid \<Rightarrow> string \<Rightarrow> string"
  jwt_verify :: "string \<Rightarrow> objectid option"

text \<open>
  An error response: the kind of failure with the message the handler sends, or the value
  the handler interpolates into its message. \<open>status_code\<close> is the HTTP status sent.
\<close>

datatype error =
    InvalidRequest string
  | Conflict string
  | InvalidCredentials string
  | Unauthenticated string
  | Forbidden string
  | NotFound string
  | ProductNotFound objectid
  | InsufficientStock string
  | InvalidTransition string

fun status_code :: "error \<Rightarrow> nat" where
  "status_code (InvalidRequest m) = 400"
| "status_code (Conflict m) = 400"
| "status_code (InvalidCredentials m) = 400"
| "status_code (Unauthenticated m) = 401"
| "status_code (Forbidden m) = 403"
| "status_code (NotFound m) = 404"
| "status_code (ProductNotFound i) = 404"
| "status_code (InsufficientStock n) = 400"
| "status_code (InvalidTransition m) = 400"

section \<open>The document store\<close>

text \<open>
  A collection is the list of its documents, each paired with its \<^verbatim>\<open>_id\<close>, in insertion
  order. The queries below are the ones the handlers call. A query addresses the first
  document with the given id; a saved document gets an id no document of the collection
  has.
\<close>

definition findById :: "'a collection \<Rightarrow> objectid \<Rightarrow> 'a option" where
  "findById c i = map_of c i"

definition findOne :: "(objectid \<Rightarrow> 'a \<Rightarrow> bool) \<Rightarrow> 'a collection \<Rightarrow> (objectid \<times> 'a) option" where
  "findOne P c = find (\<lambda>(i, d). P i d) c"

fun updateById :: "objectid \<Rightarrow> ('a \<Rightarrow> 'a) \<Rightarrow> 'a collection \<Rightarrow> 'a collection" where
  "updateById i f [] = []"
| "updateById i f ((j, d) # c) = (if j = i then (j, f d) # c else (j, d) # updateById i f c)"

fun new_id :: "'a collection \<Rightarrow> objectid" where
  "new_id [] = 0"
| "new_id ((j, d) # c) = max (Suc j) (new_id c)"

definition save_new :: "'a \<Rightarrow> 'a collection \<Rightarrow> objectid \<times> 'a collection" where
  "save_new d c = (new_id c, c @ [(new_id c, d)])"

section \<open>Placing an order\<close>

text \<open>
  Modelled from the spec: the Order schema (models/order.js) is not among the sources.
  The handler builds the order from four fields and leaves the status to the schema; the
  spec says a new Order is persisted with status pending.
\<close>

definition new_Order :: "objectid \<Rightarrow> order_item list \<Rightarrow> rat \<Rightarrow> string \<Rightarrow> order" where
  "new_Order userId orderProducts totalAmount shippingAddress =
     \<lparr>o_userId = userId, o_products = orderProducts, o_totalAmount = totalAmount,
      o_shippingAddress = shippingAddress, o_status = ''pending''\<rparr>"

text \<open>
  The loop of \<^verbatim>\<open>POST /buy\<close> over the requested lines. It carries the product collection,
  the snapshots pushed so far and the running total; a failing line returns at once, with
  the collection as the earlier lines left it.
\<close>

fun buy_loop :: "product collection \<Rightarrow> line_request list \<Rightarrow> order_item list \<Rightarrow> rat \<Rightarrow>
    (error + order_item list \<times> rat) \<times> product collection" where
  "buy_loop ps [] orderProducts totalAmount = (Inr (orderProducts, totalAmount), ps)"
| "buy_loop ps (item # items) orderProducts totalAmount =
     (case findById ps (productId item) of
        None \<Rightarrow> (Inl (ProductNotFound (productId item)), ps)
      | Some product \<Rightarrow>
          if p_quantity product < quantity item
          then (Inl (InsufficientStock (p_name product)), ps)
          else buy_loop
                 (updateById (productId item)
                    (\<lambda>d. d\<lparr>p_quantity := p_quantity product - quantity item\<rparr>) ps)
                 items
                 (orderProducts @
                    [\<lparr>i_productId = productId item, i_name = p_name product,
                      i_price = p_price product, i_quantity = quantity item\<rparr>])
                 (totalAmount + p_price product * of_int (quantity item)))"

text \<open>
  \<^verbatim>\<open>POST /buy\<close> for the authenticated account \<open>uid\<close>. The body field \<^verbatim>\<open>products\<close> may be
  absent (\<open>None\<close>). The result is the response and the store after the call.
\<close>

definition buy :: "db \<Rightarrow> objectid \<Rightarrow> line_request list option \<Rightarrow> string \<Rightarrow>
    (error + objectid \<times> order) \<times> db" where
  "buy st uid body_products shippingAddress =
     (case body_products of
        None \<Rightarrow> (Inl (InvalidRequest ''No products to buy''), st)
      | Some items \<Rightarrow>
          if items = [] then (Inl (InvalidRequest ''No products to buy''), st)
          else
            (case buy_loop (products st) items [] 0 of
               (Inl e, ps) \<Rightarrow> (Inl e, st\<lparr>products := ps\<rparr>)
             | (Inr (orderProducts, totalAmount), ps) \<Rightarrow>
                 (let ord = new_Order uid orderProducts totalAmount shippingAddress;
                      (oid, os) = save_new ord (orders st)
                  in (Inr (oid, ord), st\<lparr>products := ps, orders := os\<rparr>))))"


section \<open>Cancelling an order\<close>

text \<open>
  The query \<^verbatim>\<open>Order.findOne({ _id, userId })\<close>: ids are unique in a collection, so it is the
  order with that id, if the given account owns it.
\<close>

definition findOrder :: "order collection \<Rightarrow> objectid \<Rightarrow> objectid \<Rightarrow> order option" where
  "findOrder c oid uid =
     (case findById c oid of
        None \<Rightarrow> None
      | Some ord \<Rightarrow> if o_userId ord = uid then Some ord else None)"

text \<open>
  The loop of the cancel handler: one \<^verbatim>\<open>$inc\<close> of the quantity per line of the order. A
  line whose product was deleted changes nothing.
\<close>

fun cancel_loop :: "product collection \<Rightarrow> order_item list \<Rightarrow> product collection" where
  "cancel_loop ps [] = ps"
| "cancel_loop ps (item # items) =
     cancel_loop
       (updateById (i_productId item) (\<lambda>d. d\<lparr>p_quantity := p_quantity d + i_quantity item\<rparr>) ps)
       items"

text \<open>\<^verbatim>\<open>PUT /order/:id/cancel\<close> for the authenticated account \<open>uid\<close>.\<close>

definition cancel :: "db \<Rightarrow> objectid \<Rightarrow> objectid \<Rightarrow> (error + order) \<times> db" where
  "cancel st uid oid =
     (case findOrder (orders st) oid uid of
        None \<Rightarrow> (Inl (NotFound ''Order not found''), st)
      | Some ord \<Rightarrow>
          if o_status ord \<noteq> ''pending''
          then (Inl (InvalidTransition ''Cannot cancel order. Order already processed.''), st)
          else
            (let ps = cancel_loop (products st) (o_products ord);
                 ord' = ord\<lparr>o_status := ''cancelled''\<rparr>
             in (Inr ord', st\<lparr>products := ps, orders := updateById oid (\<lambda>d. ord') (orders st)\<rparr>)))"

section \<open>Order status, set by an admin\<close>

text \<open>\<^verbatim>\<open>PUT /order/:id/status\<close> of the admin routes.\<close>

definition order_status :: "db \<Rightarrow> objectid \<Rightarrow> string \<Rightarrow> (error + order) \<times> db" where
  "order_status st oid status =
     (if status \<notin> set [''pending'', ''confirmed'', ''shipped'', ''delivered'', ''cancelled'']
      then (Inl (InvalidRequest ''Invalid status''), st)
      else
        (case findById (orders st) oid of
           None \<Rightarrow> (Inl (NotFound ''Order not found''), st)
         | Some ord \<Rightarrow>
             (Inr (ord\<lparr>o_status := status\<rparr>),
              st\<lparr>orders := updateById oid (\<lambda>d. d\<lparr>o_status := status\<rparr>) (orders st)\<rparr>)))"

section \<open>The catalog\<close>

text \<open>
  Modelled from the spec: the Product schema (models/product.js) is not among the sources.
  The spec's create takes the product fields and has no failure, so the document is saved
  as it is sent.
\<close>

definition addproduct :: "db \<Rightarrow> product \<Rightarrow> (error + objectid \<times> product) \<times> db" where
  "addproduct st body =
     (let (pid, ps) = save_new body (products st)
      in (Inr (pid, body), st\<lparr>products := ps\<rparr>))"

definition apply_patch :: "product_patch \<Rightarrow> product \<Rightarrow> product" where
  "apply_patch body p =
     \<lparr>p_name = (case set_name body of None \<Rightarrow> p_name p | Some v \<Rightarrow> v),
      p_price = (case set_price body of None \<Rightarrow> p_price p | Some v \<Rightarrow> v),
      p_description = (case set_description body of None \<Rightarrow> p_description p | Some v \<Rightarrow> v),
      p_color = (case set_color body of None \<Rightarrow> p_color p | Some v \<Rightarrow> v),
      p_quantity = (case set_quantity body of None \<Rightarrow> p_quantity p | Some v \<Rightarrow> v)\<rparr>"

text \<open>
  \<^verbatim>\<open>PUT /product/:id\<close>, the same handler in the product, seller and admin routes:
  \<^verbatim>\<open>findByIdAndUpdate\<close> with the body, which runs no validator of the schema.
\<close>

definition update_product :: "db \<Rightarrow> objectid \<Rightarrow> product_patch \<Rightarrow> (error + product) \<times> db" where
  "update_product st pid body =
     (case findById (products st) pid of
        None \<Rightarrow> (Inl (NotFound ''Product not found''), st)
      | Some p \<Rightarrow>
          (Inr (apply_patch body p), st\<lparr>products := updateById pid (apply_patch body) (products st)\<rparr>))"

fun deleteById :: "objectid \<Rightarrow> 'a collection \<Rightarrow> 'a collection" where
  "deleteById i [] = []"
| "deleteById i ((j, d) # c) = (if j = i then c else (j, d) # deleteById i c)"

text \<open>\<^verbatim>\<open>DELETE /product/:id\<close>.\<close>

definition delete_product :: "db \<Rightarrow> objectid \<Rightarrow> (error + unit) \<times> db" where
  "delete_product st pid =
     (case findById (products st) pid of
        None \<Rightarrow> (Inl (NotFound ''Product not found''), st)
      | Some p \<Rightarrow> (Inr (), st\<lparr>products := deleteById pid (products st)\<rparr>))"

subsection \<open>Search\<close>

text \<open>
  The name and colour parameters go to the database as \<^verbatim>\<open>$regex\<close> with option \<^verbatim>\<open>i\<close>.
  The model gives the meaning of a pattern made of ordinary characters and dots: each
  ordinary character stands for itself in either case (of the ASCII letters), a dot for
  any character but a line feed, and the pattern may match anywhere in the text. A
  pattern with any other special character is left to \<open>engine\<close>, a parameter standing for
  the database's matcher.
\<close>

fun toLowerCase :: "char \<Rightarrow> char" where
  "toLowerCase (Char b0 b1 b2 b3 b4 b5 b6 b7) =
     (let n = (of_char (Char b0 b1 b2 b3 b4 b5 b6 b7) :: nat)
      in if 65 \<le> n \<and> n \<le> 90 then Char b0 b1 b2 b3 b4 True b6 b7
         else Char b0 b1 b2 b3 b4 b5 b6 b7)"

definition regex_operators :: "char list" where
  "regex_operators =
     [CHR 0x5C, CHR ''^'', CHR ''$'', CHR ''|'', CHR ''?'', CHR ''*'', CHR ''+'',
      CHR ''('', CHR '')'', CHR ''['', CHR '']'', CHR ''{'', CHR ''}'']"

fun match_here :: "string \<Rightarrow> string \<Rightarrow> bool" where
  "match_here [] s = True"
| "match_here (p # ps) [] = False"
| "match_here (p # ps) (c # cs) =
     ((if p = CHR ''.'' then c \<noteq> CHR 0x0A else p = c) \<and> match_here ps cs)"

fun match_anywhere :: "string \<Rightarrow> string \<Rightarrow> bool" where
  "match_anywhere pat [] = match_here pat []"
| "match_anywhere pat (c # cs) = (match_here pat (c # cs) \<or> match_anywhere pat cs)"

definition regex_i :: "(string \<Rightarrow> string \<Rightarrow> bool) \<Rightarrow> string \<Rightarrow> string \<Rightarrow> bool" where
  "regex_i engine pat s =
     (if list_ex (\<lambda>c. c \<in> set regex_operators) pat then engine pat s
      else match_anywhere (map toLowerCase pat) (map toLowerCase s))"

text \<open>
  The filter object of \<^verbatim>\<open>GET /search\<close>, as a predicate on a product: a text parameter
  counts when it is a non-empty string, the price condition when either bound is given.
\<close>

definition search_filter :: "(string \<Rightarrow> string \<Rightarrow> bool) \<Rightarrow> search_query \<Rightarrow> product \<Rightarrow> bool" where
  "search_filter engine q p =
     ((case q_name q of
         None \<Rightarrow> True
       | Some name \<Rightarrow> if name = [] then True else regex_i engine name (p_name p)) \<and>
      (if q_minPrice q \<noteq> None \<or> q_maxPrice q \<noteq> None
       then (case q_minPrice q of None \<Rightarrow> True | Some lo \<Rightarrow> lo \<le> p_price p) \<and>
            (case q_maxPrice q of None \<Rightarrow> True | Some hi \<Rightarrow> p_price p \<le> hi)
       else True) \<and>
      (case q_color q of
         None \<Rightarrow> True
       | Some color \<Rightarrow> if color = [] then True else regex_i engine color (p_color p)))"

definition search :: "(string \<Rightarrow> string \<Rightarrow> bool) \<Rightarrow> db \<Rightarrow> search_query \<Rightarrow> product collection" where
  "search engine st q = filter (\<lambda>(i, p). search_filter engine q p) (products st)"

section \<open>Accounts\<close>



definition create_admin :: "env \<Rightarrow> db \<Rightarrow> string \<Rightarrow> string \<Rightarrow> string \<Rightarrow> (error + user) \<times> db" where
  "create_admin env st name email password =
     (case findOne (\<lambda>i u. u_email u = email) (users st) of
        Some existingAdmin \<Rightarrow> (Inl (Conflict ''Admin already exists with this email''), st)
      | None \<Rightarrow>
          (let hashedPassword = bcrypt_hash env password;
               admin = \<lparr>u_name = name, u_email = email, u_password = hashedPassword,
                        u_role = ''admin''\<rparr>
           in (Inr admin, st\<lparr>users := snd (save_new admin (users st))\<rparr>)))"

text \<open>
  The three \<^verbatim>\<open>POST /login\<close> handlers. The user routes look the account up by email alone,
  the seller and admin routes by email and role. A successful login returns the token and
  the account.
\<close>

definition login_user :: "env \<Rightarrow> db \<Rightarrow> string \<Rightarrow> string \<Rightarrow> error + string \<times> user" where
  "login_user env st email password =
     (case findOne (\<lambda>i u. u_email u = email) (users st) of
        None \<Rightarrow> Inl (InvalidCredentials ''Invalid email or password'')
      | Some (uid, user) \<Rightarrow>
          if \<not> bcrypt_compare env password (u_password user)
          then Inl (InvalidCredentials ''Invalid email or password'')
          else Inr (jwt_sign env uid (u_role user), user))"

definition login_seller :: "env \<Rightarrow> db \<Rightarrow> string \<Rightarrow> string \<Rightarrow> error + string \<times> user" where
  "login_seller env st email password =
     (case findOne (\<lambda>i u. u_email u = email \<and> u_role u = ''seller'') (users st) of
        None \<Rightarrow> Inl (InvalidCredentials ''Invalid seller credentials'')
      | Some (uid, seller) \<Rightarrow>
          if \<not> bcrypt_compare env password (u_password seller)
          then Inl (InvalidCredentials ''Invalid seller credentials'')
          else Inr (jwt_sign env uid (u_role seller), seller))"

definition login_admin :: "env \<Rightarrow> db \<Rightarrow> string \<Rightarrow> string \<Rightarrow> error + string \<times> user" where
  "login_admin env st email password =
     (case findOne (\<lambda>i u. u_email u = email \<and> u_role u = ''admin'') (users st) of
        None \<Rightarrow> Inl (InvalidCredentials ''Invalid admin credentials'')
      | Some (uid, admin) \<Rightarrow>
          if \<not> bcrypt_compare env password (u_password admin)
          then Inl (InvalidCredentials ''Invalid admin credentials'')
          else Inr (jwt_sign env uid (u_role admin), admin))"

section \<open>Middleware and routes\<close>

text \<open>JavaScript's \<^verbatim>\<open>s.replace(pat, rep)\<close> with a string pattern: the first occurrence only.\<close>

fun replace :: "string \<Rightarrow> string \<Rightarrow> string \<Rightarrow> string" where
  "replace pat rep [] = (if pat = [] then rep else [])"
| "replace pat rep (c # cs) =
     (if prefix pat (c # cs) then rep @ drop (length pat) (c # cs)
      else c # replace pat rep cs)"

text \<open>
  \<open>authenticate\<close> gets the \<^verbatim>\<open>Authorization\<close> header, if the request has one, and gives the
  account it puts into \<^verbatim>\<open>req.user\<close>, or the 401 response.
\<close>

definition authenticate :: "env \<Rightarrow> db \<Rightarrow> string option \<Rightarrow> error + objectid \<times> user" where
  "authenticate env st authorization =
     (case map_option (replace ''Bearer '' []) authorization of
        None \<Rightarrow> Inl (Unauthenticated ''Access denied. No token provided.'')
      | Some token \<Rightarrow>
          if token = [] then Inl (Unauthenticated ''Access denied. No token provided.'')
          else
            (case jwt_verify env token of
               None \<Rightarrow> Inl (Unauthenticated ''Invalid token.'')
             | Some userId \<Rightarrow>
                 (case findById (users st) userId of
                    None \<Rightarrow> Inl (Unauthenticated ''Invalid token. User not found.'')
                  | Some user \<Rightarrow> Inr (userId, user))))"

definition isAdmin :: "user \<Rightarrow> error option" where
  "isAdmin user =
     (if u_role user \<noteq> ''admin'' then Some (Forbidden ''Access denied. Admin only.'') else None)"

definition isAdminOrSeller :: "user \<Rightarrow> error option" where
  "isAdminOrSeller user =
     (if u_role user \<noteq> ''admin'' \<and> u_role user \<noteq> ''seller''
      then Some (Forbidden ''Access denied. Admin or Seller only.'') else None)"

definition isUser :: "user \<Rightarrow> error option" where
  "isUser user =
     (if u_role user \<noteq> ''user'' then Some (Forbidden ''Access denied. User only.'') else None)"

text \<open>
  The routes as they are registered: the middleware in the order given, then the handler.
  \<^verbatim>\<open>POST /buy\<close> and \<^verbatim>\<open>PUT /order/:id/cancel\<close> have \<open>authenticate\<close> alone,
  \<^verbatim>\<open>POST /create\<close> of the admin routes has no middleware, and
  \<^verbatim>\<open>PUT /order/:id/status\<close> has \<open>authenticate\<close> and \<open>isAdmin\<close>.
\<close>

definition route_buy :: "env \<Rightarrow> db \<Rightarrow> string option \<Rightarrow> line_request list option \<Rightarrow> string \<Rightarrow>
    (error + objectid \<times> order) \<times> db" where
  "route_buy env st authorization body_products shippingAddress =
     (case authenticate env st authorization of
        Inl e \<Rightarrow> (Inl e, st)
      | Inr (uid, user) \<Rightarrow> buy st uid body_products shippingAddress)"

definition route_cancel :: "env \<Rightarrow> db \<Rightarrow> string option \<Rightarrow> objectid \<Rightarrow> (error + order) \<times> db" where
  "route_cancel env st authorization oid =
     (case authenticate env st authorization of
        Inl e \<Rightarrow> (Inl e, st)
      | Inr (uid, user) \<Rightarrow> cancel st uid oid)"

definition route_create_admin :: "env \<Rightarrow> db \<Rightarrow> string option \<Rightarrow> string \<Rightarrow> string \<Rightarrow> string \<Rightarrow>
    (error + user) \<times> db" where
  "route_create_admin env st authorization name email password =
     create_admin env st name email password"

definition route_order_status :: "env \<Rightarrow> db \<Rightarrow> string option \<Rightarrow> objectid \<Rightarrow> string \<Rightarrow>
    (error + order) \<times> db" where
  "route_order_status env st authorization oid status =
     (case authenticate env st authorization of
        Inl e \<Rightarrow> (Inl e, st)
      | Inr (uid, user) \<Rightarrow>
          (case isAdmin user of
             Some e \<Rightarrow> (Inl e, st)
           | None \<Rightarrow> order_status st oid status))"

section \<open>Sequences of operations\<close>

text \<open>The calls that change products or orders, and the store after a sequence of them.\<close>

datatype operation =
    Op_addproduct product
  | Op_update_product objectid product_patch
  | Op_delete_product objectid
  | Op_buy objectid "line_request list option" string
  | Op_cancel objectid objectid
  | Op_order_status objectid string

fun apply_operation :: "db \<Rightarrow> operation \<Rightarrow> db" where
  "apply_operation st (Op_addproduct body) = snd (addproduct st body)"
| "apply_operation st (Op_update_product pid body) = snd (update_product st pid body)"
| "apply_operation st (Op_delete_product pid) = snd (delete_product st pid)"
| "apply_operation st (Op_buy uid body_products shippingAddress) =
     snd (buy st uid body_products shippingAddress)"
| "apply_operation st (Op_cancel uid oid) = snd (cancel st uid oid)"
| "apply_operation st (Op_order_status oid status) = snd (order_status st oid status)"

definition run :: "db \<Rightarrow> operation list \<Rightarrow> db" where
  "run st ops = foldl apply_operation st ops"

section \<open>What the claims speak of\<close>



text \<open>One line's decrement of the stock, and the quantity an order holds of a product.\<close>

definition decrement :: "line_request \<Rightarrow> product collection \<Rightarrow> product collection" where
  "decrement item ps =
     updateById (productId item) (\<lambda>d. d\<lparr>p_quantity := p_quantity d - quantity item\<rparr>) ps"





text \<open>An operation that is not an admin's setting of a status to pending.\<close>

fun sets_pending :: "operation \<Rightarrow> bool" where
  "sets_pending (Op_order_status oid status) = (status = ''pending'')"
| "sets_pending other = False"

text \<open>An order that exists and is not pending.\<close>

definition settled :: "order collection \<Rightarrow> objectid \<Rightarrow> bool" where
  "settled os oid =
     (case findById os oid of None \<Rightarrow> False | Some ord \<Rightarrow> o_status ord \<noteq> ''pending'')"

text \<open>Some account has this email and this role.\<close>

definition has_account :: "db \<Rightarrow> string \<Rightarrow> string \<Rightarrow> bool" where
  "has_account st email role =
     list_ex (\<lambda>(i, u). u_email u = email \<and> u_role u = role) (users st)"

text \<open>A matcher-free text filter: the pattern, in lower case, is part of the text, in lower case.\<close>

definition contains_ci :: "string \<Rightarrow> string \<Rightarrow> bool" where
  "contains_ci pat s = sublist (map toLowerCase pat) (map toLowerCase s)"

text \<open>The search as the conjunction of literal filters and inclusive bounds.\<close>

definition literal_filter :: "search_query \<Rightarrow> product \<Rightarrow> bool" where
  "literal_filter q p =
     ((case q_name q of None \<Rightarrow> True | Some name \<Rightarrow> contains_ci name (p_name p)) \<and>
      (case q_minPrice q of None \<Rightarrow> True | Some lo \<Rightarrow> lo \<le> p_price p) \<and>
      (case q_maxPrice q of None \<Rightarrow> True | Some hi \<Rightarrow> p_price p \<le> hi) \<and>
      (case q_color q of None \<Rightarrow> True | Some color \<Rightarrow> contains_ci color (p_color p)))"

definition plain :: "string option \<Rightarrow> bool" where
  "plain pat =
     (case pat of None \<Rightarrow> True
      | Some s \<Rightarrow> \<not> list_ex (\<lambda>c. c \<in> set regex_operators \<or> c = CHR ''.'') s)"

section \<open>A shop to compute with\<close>

definition demo_env :: env where
  "demo_env =
     \<lparr>bcrypt_hash = (\<lambda>password. CHR ''#'' # password),
      bcrypt_compare = (\<lambda>password hashed. hashed = CHR ''#'' # password),
      jwt_sign = (\<lambda>userId role. replicate userId (CHR ''i'') @ CHR ''.'' # role),
      jwt_verify = (\<lambda>token. if CHR ''.'' \<in> set token
                             then Some (length (takeWhile (\<lambda>c. c = CHR ''i'') token)) else None)\<rparr>"

definition demo_shop :: db where
  "demo_shop =
     \<lparr>users =
        [(0, \<lparr>u_name = ''A'', u_email = ''a@x.com'', u_password = ''#secret'', u_role = ''user''\<rparr>),
         (1, \<lparr>u_name = ''S'', u_email = ''s@x.com'', u_password = ''#hunter2'', u_role = ''seller''\<rparr>),
         (2, \<lparr>u_name = ''R'', u_email = ''r@x.com'', u_password = ''#root'', u_role = ''admin''\<rparr>)],
      products =
        [(0, \<lparr>p_name = ''pen'', p_price = 20, p_description = ''a pen'', p_color = ''Blue'',
              p_quantity = 5\<rparr>),
         (1, \<lparr>p_name = ''ink'', p_price = 5 / 2, p_description = ''black ink'',
              p_color = ''black'', p_quantity = 1\<rparr>)],
      orders = []\<rparr>"

text \<open>A matcher for the patterns the model does not read: it is never asked below.\<close>

definition no_engine :: "string \<Rightarrow> string \<Rightarrow> bool" where
  "no_engine pat s = False"

text \<open>The order for three pens, and the shop after account 0 has placed it.\<close>

definition demo_order :: order where
  "demo_order =
     \<lparr>o_userId = 0,
      o_products = [\<lparr>i_productId = 0, i_name = ''pen'', i_price = 20, i_quantity = 3\<rparr>],
      o_totalAmount = 60, o_shippingAddress = ''1 Main St'', o_status = ''pending''\<rparr>"

definition demo_after_buy :: db where
  "demo_after_buy =
     demo_shop\<lparr>products :=
        [(0, \<lparr>p_name = ''pen'', p_price = 20, p_description = ''a pen'', p_color = ''Blue'',
              p_quantity = 2\<rparr>),
         (1, \<lparr>p_name = ''ink'', p_price = 5 / 2, p_description = ''black ink'',
              p_color = ''black'', p_quantity = 1\<rparr>)],
       orders := [(0, demo_order)]\<rparr>"

section \<open>Lemmas on the store\<close>

lemma findById_updateById:
  "findById (updateById i f c) j = (if j = i then map_option f (findById c i) else findById c j)"
  by (induction c) (auto simp: findById_def)

lemma new_id_greater: "(j, d) \<in> set c \<Longrightarrow> j < new_id c"
  by (induction c) (auto simp: less_Suc_eq_le max_def)


lemma updateById_cong_first:
  "findById c i = Some d \<Longrightarrow> f d = g d \<Longrightarrow> updateById i f c = updateById i g c"
  by (induction c) (auto simp: findById_def)

lemma findOne_None_iff: "findOne P c = None \<longleftrightarrow> (\<forall>(i, d)\<in>set c. \<not> P i d)"
  by (auto simp: findOne_def find_None_iff)

lemma findOne_Some_holds: "findOne P c = Some (i, d) \<Longrightarrow> P i d \<and> (i, d) \<in> set c"
  unfolding findOne_def by (induction c) (auto split: if_splits)

text \<open>
  Ids stay unique: an update keeps the ids and a saved document gets a new one. With
  unique ids, the order with a given id and owner is what the query for both finds.
\<close>

lemma ids_updateById: "map fst (updateById i f c) = map fst c"
  by (induction c) auto

lemma ids_save_new:
  "distinct (map fst c) \<Longrightarrow> distinct (map fst (snd (save_new d c)))"
  using new_id_greater [of "new_id c" _ c] by (auto simp: save_new_def)

lemma findOrder_findOne:
  "distinct (map fst c) \<Longrightarrow>
   findOrder c oid uid = map_option snd (findOne (\<lambda>i ord. i = oid \<and> o_userId ord = uid) c)"
proof (induction c)
  case Nil
  show ?case by (simp add: findOrder_def findById_def findOne_def)
next
  case (Cons a c)
  obtain j d where a: "a = (j, d)" by (cases a)
  show ?case
  proof (cases "j = oid")
    case True
    then have "\<forall>(i, x)\<in>set c. i \<noteq> oid" using Cons.prems a by force
    then have "findOne (\<lambda>i ord. i = oid \<and> o_userId ord = uid) c = None"
      by (auto simp: findOne_None_iff)
    then show ?thesis using True a
      by (simp add: findOrder_def findById_def findOne_def)
  next
    case False
    then show ?thesis using Cons a
      by (simp add: findOrder_def findById_def findOne_def)
  qed
qed

section \<open>Placing an order: proofs\<close>




lemma buy_loop_append:
  "buy_loop ps (xs @ ys) acc tot =
     (case buy_loop ps xs acc tot of
        (Inl e, ps') \<Rightarrow> (Inl e, ps')
      | (Inr (acc', tot'), ps') \<Rightarrow> buy_loop ps' ys acc' tot')"
  by (induction xs arbitrary: ps acc tot) (auto split: option.splits)

lemma buy_loop_Inr_fold:
  "buy_loop ps items acc tot = (Inr r, ps') \<Longrightarrow> ps' = fold decrement items ps"
proof (induction items arbitrary: ps acc tot)
  case Nil
  then show ?case by simp
next
  case (Cons item items)
  from Cons.prems obtain p where p: "findById ps (productId item) = Some p"
    by (auto split: option.splits)
  have upd: "updateById (productId item) (\<lambda>d. d\<lparr>p_quantity := p_quantity p - quantity item\<rparr>) ps
      = decrement item ps"
    unfolding decrement_def using p by (rule updateById_cong_first) simp
  from Cons.prems p upd have "\<exists>acc' tot'. buy_loop (decrement item ps) items acc' tot' = (Inr r, ps')"
    by (auto split: if_splits)
  then show ?case using Cons.IH by auto
qed

lemma buy_loop_Inl_split:
  "buy_loop ps items acc tot = (Inl e, ps') \<Longrightarrow>
   \<exists>pre item rest. items = pre @ item # rest \<and> ps' = fold decrement pre ps \<and>
     (case findById ps' (productId item) of
        None \<Rightarrow> e = ProductNotFound (productId item)
      | Some p \<Rightarrow> p_quantity p < quantity item \<and> e = InsufficientStock (p_name p))"
proof (induction items arbitrary: ps acc tot)
  case Nil
  then show ?case by simp
next
  case (Cons item items)
  show ?case
  proof (cases "findById ps (productId item)")
    case None
    with Cons.prems have "ps' = ps" "e = ProductNotFound (productId item)" by auto
    with None have "item # items = [] @ item # items \<and> ps' = fold decrement [] ps \<and>
       (case findById ps' (productId item) of
        None \<Rightarrow> e = ProductNotFound (productId item)
      | Some p \<Rightarrow> p_quantity p < quantity item \<and> e = InsufficientStock (p_name p))"
      by simp
    then show ?thesis by blast
  next
    case (Some p)
    show ?thesis
    proof (cases "p_quantity p < quantity item")
      case True
      with Some Cons.prems have "ps' = ps" "e = InsufficientStock (p_name p)" by auto
      with Some True have "item # items = [] @ item # items \<and> ps' = fold decrement [] ps \<and>
       (case findById ps' (productId item) of
        None \<Rightarrow> e = ProductNotFound (productId item)
      | Some p \<Rightarrow> p_quantity p < quantity item \<and> e = InsufficientStock (p_name p))"
        by simp
      then show ?thesis by blast
    next
      case False
      have upd: "updateById (productId item) (\<lambda>d. d\<lparr>p_quantity := p_quantity p - quantity item\<rparr>) ps
          = decrement item ps"
        unfolding decrement_def using Some by (rule updateById_cong_first) simp
      from Cons.prems Some False upd
      have "\<exists>acc' tot'. buy_loop (decrement item ps) items acc' tot' = (Inl e, ps')" by auto
      then obtain pre it rest where
        "items = pre @ it # rest" "ps' = fold decrement pre (decrement item ps)"
        "(case findById ps' (productId it) of
            None \<Rightarrow> e = ProductNotFound (productId it)
          | Some p \<Rightarrow> p_quantity p < quantity it \<and> e = InsufficientStock (p_name p))"
        using Cons.IH by blast
      then have "item # items = (item # pre) @ it # rest \<and> ps' = fold decrement (item # pre) ps \<and>
        (case findById ps' (productId it) of
            None \<Rightarrow> e = ProductNotFound (productId it)
          | Some p \<Rightarrow> p_quantity p < quantity it \<and> e = InsufficientStock (p_name p))"
        by simp
      then show ?thesis by blast
    qed
  qed
qed





text \<open>
  C2. The lines are processed in the order given. When the lines \<open>pre\<close> have been
  processed, the next line fails with the missing id if its product does not exist, and
  with the product's name if the product has less than the line asks for. Whenever a buy
  with lines fails, no order is persisted, the failure is that of the first failing
  line, and the products keep the decrements of the lines before it.
\<close>

theorem buy_line_failure:
  "(buy_loop (products st) pre [] 0 = (Inr (ops, tot), ps') \<longrightarrow>
      ps' = fold decrement pre (products st) \<and>
      (findById ps' (productId item) = None \<longrightarrow>
         buy st uid (Some (pre @ item # rest)) addr =
           (Inl (ProductNotFound (productId item)), st\<lparr>products := ps'\<rparr>)) \<and>
      (\<forall>p. findById ps' (productId item) = Some p \<and> p_quantity p < quantity item \<longrightarrow>
         buy st uid (Some (pre @ item # rest)) addr =
           (Inl (InsufficientStock (p_name p)), st\<lparr>products := ps'\<rparr>))) \<and>
   (items \<noteq> [] \<and> buy st uid (Some items) addr = (Inl e, st') \<longrightarrow>
      orders st' = orders st \<and> users st' = users st \<and>
      (\<exists>pre item rest. items = pre @ item # rest \<and>
         products st' = fold decrement pre (products st) \<and>
         (case findById (products st') (productId item) of
            None \<Rightarrow> e = ProductNotFound (productId item)
          | Some p \<Rightarrow> p_quantity p < quantity item \<and> e = InsufficientStock (p_name p))))"
proof (intro conjI impI allI)
  assume run: "buy_loop (products st) pre [] 0 = (Inr (ops, tot), ps')"
  then show "ps' = fold decrement pre (products st)"
    by (rule buy_loop_Inr_fold)
next
  assume run: "buy_loop (products st) pre [] 0 = (Inr (ops, tot), ps')"
    and "findById ps' (productId item) = None"
  then show "buy st uid (Some (pre @ item # rest)) addr =
             (Inl (ProductNotFound (productId item)), st\<lparr>products := ps'\<rparr>)"
    by (simp add: buy_def buy_loop_append)
next
  fix p
  assume run: "buy_loop (products st) pre [] 0 = (Inr (ops, tot), ps')"
    and "findById ps' (productId item) = Some p \<and> p_quantity p < quantity item"
  then show "buy st uid (Some (pre @ item # rest)) addr =
             (Inl (InsufficientStock (p_name p)), st\<lparr>products := ps'\<rparr>)"
    by (simp add: buy_def buy_loop_append)
next
  assume a: "items \<noteq> [] \<and> buy st uid (Some items) addr = (Inl e, st')"
  then obtain ps' where loop: "buy_loop (products st) items [] 0 = (Inl e, ps')"
    and st': "st' = st\<lparr>products := ps'\<rparr>"
    by (auto simp: buy_def save_new_def Let_def split: prod.splits sum.splits)
  show "orders st' = orders st" using st' by simp
  show "users st' = users st" using st' by simp
  show "\<exists>pre item rest. items = pre @ item # rest \<and>
         products st' = fold decrement pre (products st) \<and>
         (case findById (products st') (productId item) of
            None \<Rightarrow> e = ProductNotFound (productId item)
          | Some p \<Rightarrow> p_quantity p < quantity item \<and> e = InsufficientStock (p_name p))"
    using buy_loop_Inl_split [OF loop] st' by simp
qed

text \<open>
  After a line of three pens, a line for a product that does not exist and a line for
  two bottles of ink where one is left both fail, and two pens remain.
\<close>

theorem buy_line_failure_witness:
  "buy demo_shop 0 (Some [\<lparr>productId = 0, quantity = 3\<rparr>, \<lparr>productId = 9, quantity = 1\<rparr>,
                          \<lparr>productId = 1, quantity = 1\<rparr>]) ''1 Main St'' =
     (Inl (ProductNotFound 9), demo_shop\<lparr>products := fold decrement [\<lparr>productId = 0, quantity = 3\<rparr>] (products demo_shop)\<rparr>) \<and>
   buy demo_shop 0 (Some [\<lparr>productId = 0, quantity = 3\<rparr>, \<lparr>productId = 1, quantity = 2\<rparr>]) ''1 Main St'' =
     (Inl (InsufficientStock ''ink''), demo_shop\<lparr>products := fold decrement [\<lparr>productId = 0, quantity = 3\<rparr>] (products demo_shop)\<rparr>) \<and>
   map_option p_quantity (findById (fold decrement [\<lparr>productId = 0, quantity = 3\<rparr>] (products demo_shop)) 0) = Some 2"
proof -
  let ?l = "\<lparr>productId = 0, quantity = 3\<rparr>"
  let ?ps = "[(0, \<lparr>p_name = ''pen'', p_price = 20, p_description = ''a pen'', p_color = ''Blue'', p_quantity = 2\<rparr>),
         (1, \<lparr>p_name = ''ink'', p_price = 5 / 2, p_description = ''black ink'', p_color = ''black'', p_quantity = 1\<rparr>)]"
  have run: "buy_loop (products demo_shop) [?l] [] 0 =
     (Inr ([\<lparr>i_productId = 0, i_name = ''pen'', i_price = 20, i_quantity = 3\<rparr>], 60), ?ps)"
    by (simp add: demo_shop_def findById_def)
  have f: "fold decrement [?l] (products demo_shop) = ?ps"
    by (simp add: demo_shop_def decrement_def)
  have n: "findById ?ps (productId \<lparr>productId = 9, quantity = 1\<rparr>) = None"
    by (simp add: findById_def)
  have i: "findById ?ps (productId \<lparr>productId = 1, quantity = 2\<rparr>) =
       Some \<lparr>p_name = ''ink'', p_price = 5 / 2, p_description = ''black ink'', p_color = ''black'', p_quantity = 1\<rparr> \<and>
       p_quantity \<lparr>p_name = ''ink'', p_price = 5 / 2, p_description = ''black ink'', p_color = ''black'', p_quantity = 1\<rparr>
         < quantity \<lparr>productId = 1, quantity = 2\<rparr>"
    by (simp add: findById_def)
  have b1: "buy demo_shop 0 (Some ([?l] @ \<lparr>productId = 9, quantity = 1\<rparr> # [\<lparr>productId = 1, quantity = 1\<rparr>])) ''1 Main St'' =
      (Inl (ProductNotFound (productId \<lparr>productId = 9, quantity = 1\<rparr>)), demo_shop\<lparr>products := ?ps\<rparr>)"
    using buy_line_failure [where st = demo_shop and pre = "[?l]" and ps' = ?ps
        and item = "\<lparr>productId = 9, quantity = 1\<rparr>" and uid = 0 and addr = "''1 Main St''"
        and rest = "[\<lparr>productId = 1, quantity = 1\<rparr>]"] run n
    by blast
  have b2: "buy demo_shop 0 (Some ([?l] @ \<lparr>productId = 1, quantity = 2\<rparr> # [])) ''1 Main St'' =
      (Inl (InsufficientStock (p_name \<lparr>p_name = ''ink'', p_price = 5 / 2, p_description = ''black ink'', p_color = ''black'', p_quantity = 1\<rparr>)),
       demo_shop\<lparr>products := ?ps\<rparr>)"
    using buy_line_failure [where st = demo_shop and pre = "[?l]" and ps' = ?ps
        and item = "\<lparr>productId = 1, quantity = 2\<rparr>" and uid = 0 and addr = "''1 Main St''"
        and rest = "[]"] run i
    by blast
  show ?thesis
    using b1 b2 by (simp add: decrement_def demo_shop_def findById_def)
qed

section \<open>Cancelling an order: proofs\<close>











lemma demo_buy:
  "buy demo_shop 0 (Some [\<lparr>productId = 0, quantity = 3\<rparr>]) ''1 Main St'' =
     (Inr (0, demo_order), demo_after_buy)"
  by (simp add: buy_def demo_shop_def demo_after_buy_def demo_order_def findById_def
        save_new_def new_Order_def Let_def)


section \<open>Quantities never negative: proofs\<close>


















section \<open>Order status: proofs\<close>

lemma settled_apply_operation:
  assumes "settled (orders st) oid" and "\<not> sets_pending op"
  shows "settled (orders (apply_operation st op)) oid"
proof (cases op)
  case (Op_addproduct body)
  then show ?thesis using assms by (simp add: addproduct_def save_new_def)
next
  case (Op_update_product pid body)
  then show ?thesis using assms by (simp add: update_product_def split: option.splits)
next
  case (Op_delete_product pid)
  then show ?thesis using assms by (simp add: delete_product_def split: option.splits)
next
  case (Op_buy uid body_products addr)
  obtain r st' where b: "buy st uid body_products addr = (r, st')"
    by (cases "buy st uid body_products addr")
  have "orders st' = orders st \<or> (\<exists>new. orders st' = orders st @ [new])"
    using b
    by (auto simp: buy_def save_new_def Let_def split: option.splits if_splits prod.splits sum.splits)
  then have "settled (orders st') oid"
    using assms(1)
    by (auto simp: settled_def findById_def map_add_def split: option.splits)
  then show ?thesis using Op_buy b by simp
next
  case (Op_cancel uid oid')
  show ?thesis
  proof (cases "findOrder (orders st) oid' uid")
    case None
    then show ?thesis using Op_cancel assms by (simp add: cancel_def)
  next
    case (Some ord)
    then show ?thesis using Op_cancel assms
      by (auto simp: cancel_def Let_def settled_def findById_updateById split: option.splits)
  qed
next
  case (Op_order_status oid' status)
  then have "status \<noteq> ''pending''" using assms(2) by simp
  then show ?thesis using Op_order_status assms(1)
    by (auto simp: order_status_def settled_def findById_updateById split: option.splits)
qed

lemma settled_run:
  "settled (orders st) oid \<Longrightarrow> \<not> list_ex sets_pending ops \<Longrightarrow> settled (orders (run st ops)) oid"
  unfolding run_def
proof (induction ops arbitrary: st)
  case Nil
  then show ?case by simp
next
  case (Cons op ops)
  then show ?case using settled_apply_operation [of st oid op] by simp
qed

text \<open>
  C5, amended. An order that is not pending stays not pending through every sequence of
  operations in which no admin sets a status to pending: buys, cancels by the owner,
  product operations and the other status changes never lead back to pending. The
  admin's status change itself puts an order into whichever of the five statuses it is
  given, pending included.
\<close>

theorem settled_order_stays_settled:
  "(settled (orders st) oid \<and> \<not> list_ex sets_pending ops \<longrightarrow> settled (orders (run st ops)) oid) \<and>
   (findById (orders st) oid = Some ord \<and>
    status \<in> set [''pending'', ''confirmed'', ''shipped'', ''delivered'', ''cancelled''] \<longrightarrow>
      findById (orders (snd (order_status st oid status))) oid = Some (ord\<lparr>o_status := status\<rparr>))"
proof (intro conjI impI)
  assume "settled (orders st) oid \<and> \<not> list_ex sets_pending ops"
  then show "settled (orders (run st ops)) oid" using settled_run by blast
next
  assume a: "findById (orders st) oid = Some ord \<and>
    status \<in> set [''pending'', ''confirmed'', ''shipped'', ''delivered'', ''cancelled'']"
  then have "order_status st oid status =
      (Inr (ord\<lparr>o_status := status\<rparr>),
       st\<lparr>orders := updateById oid (\<lambda>d. d\<lparr>o_status := status\<rparr>) (orders st)\<rparr>)"
    unfolding order_status_def by (simp del: set_simps)
  then show "findById (orders (snd (order_status st oid status))) oid = Some (ord\<lparr>o_status := status\<rparr>)"
    using a by (simp add: findById_updateById)
qed

text \<open>
  C5 as it is written fails for the admin's status change: an order placed and then
  cancelled by its owner is pending again after the admin sets its status to pending.
\<close>

theorem status_reset_counterexample:
  "map_option o_status (findById (orders (run demo_shop
       [Op_buy 0 (Some [\<lparr>productId = 0, quantity = 3\<rparr>]) ''1 Main St'', Op_cancel 0 0])) 0) =
     Some ''cancelled'' \<and>
   map_option o_status (findById (orders (run demo_shop
       [Op_buy 0 (Some [\<lparr>productId = 0, quantity = 3\<rparr>]) ''1 Main St'', Op_cancel 0 0,
        Op_order_status 0 ''pending''])) 0) =
     Some ''pending''"
  by (simp add: run_def demo_buy cancel_def findOrder_def order_status_def demo_after_buy_def
        demo_order_def findById_def Let_def)

text \<open>
  The cancelled order stays settled through a buy, a second cancel and a status change to
  delivered; a status change to pending makes the order pending.
\<close>

theorem settled_order_stays_settled_witness:
  "settled (orders (run (snd (cancel demo_after_buy 0 0))
       [Op_buy 0 (Some [\<lparr>productId = 1, quantity = 1\<rparr>]) ''1 Main St'',
        Op_cancel 0 0, Op_order_status 0 ''delivered''])) 0 \<and>
   findById (orders (snd (order_status demo_after_buy 0 ''pending''))) 0 =
     Some (demo_order\<lparr>o_status := ''pending''\<rparr>)"
proof -
  have s: "settled (orders (snd (cancel demo_after_buy 0 0))) 0"
    by (simp add: settled_def cancel_def findOrder_def demo_after_buy_def demo_order_def
          findById_def Let_def)
  have n: "\<not> list_ex sets_pending
       [Op_buy 0 (Some [\<lparr>productId = 1, quantity = 1\<rparr>]) ''1 Main St'',
        Op_cancel 0 0, Op_order_status 0 ''delivered'']"
    by simp
  have f: "findById (orders demo_after_buy) 0 = Some demo_order \<and>
      ''pending'' \<in> set [''pending'', ''confirmed'', ''shipped'', ''delivered'', ''cancelled'']"
    by (simp add: demo_after_buy_def findById_def)
  have a: "settled (orders (run (snd (cancel demo_after_buy 0 0))
       [Op_buy 0 (Some [\<lparr>productId = 1, quantity = 1\<rparr>]) ''1 Main St'',
        Op_cancel 0 0, Op_order_status 0 ''delivered''])) 0"
    using settled_order_stays_settled [where st = "snd (cancel demo_after_buy 0 0)" and oid = 0] s n
    by blast
  have b: "findById (orders (snd (order_status demo_after_buy 0 ''pending''))) 0 =
     Some (demo_order\<lparr>o_status := ''pending''\<rparr>)"
    using settled_order_stays_settled [where st = demo_after_buy and oid = 0 and ord = demo_order
        and status = "''pending''"] f
    by blast
  show ?thesis using a b by blast
qed

section \<open>Login and registration: proofs\<close>

text \<open>
  C6, amended. The seller and the admin login fail with the invalid-credentials error when
  no account has both the email and the role of the endpoint, and when the password
  does not match the hash of the account found, with one and the same message; a
  successful login there gives an account of the endpoint's role. The user login looks
  the account up by email alone: it fails, with one message, when no account has the
  email or the password does not match, and a successful login gives the account with
  that email, whatever its role.
\<close>

theorem login_scope:
  "(\<not> has_account st email ''seller'' \<longrightarrow>
      login_seller env st email password = Inl (InvalidCredentials ''Invalid seller credentials'')) \<and>
   (findOne (\<lambda>i u. u_email u = email \<and> u_role u = ''seller'') (users st) = Some (uid, u) \<and>
    \<not> bcrypt_compare env password (u_password u) \<longrightarrow>
      login_seller env st email password = Inl (InvalidCredentials ''Invalid seller credentials'')) \<and>
   (login_seller env st email password = Inr (token, u) \<longrightarrow>
      u_role u = ''seller'' \<and> u_email u = email \<and> bcrypt_compare env password (u_password u)) \<and>
   (\<not> has_account st email ''admin'' \<longrightarrow>
      login_admin env st email password = Inl (InvalidCredentials ''Invalid admin credentials'')) \<and>
   (findOne (\<lambda>i u. u_email u = email \<and> u_role u = ''admin'') (users st) = Some (uid, u) \<and>
    \<not> bcrypt_compare env password (u_password u) \<longrightarrow>
      login_admin env st email password = Inl (InvalidCredentials ''Invalid admin credentials'')) \<and>
   (login_admin env st email password = Inr (token, u) \<longrightarrow>
      u_role u = ''admin'' \<and> u_email u = email \<and> bcrypt_compare env password (u_password u)) \<and>
   ((\<forall>(i, u)\<in>set (users st). u_email u \<noteq> email) \<longrightarrow>
      login_user env st email password = Inl (InvalidCredentials ''Invalid email or password'')) \<and>
   (findOne (\<lambda>i u. u_email u = email) (users st) = Some (uid, u) \<and>
    \<not> bcrypt_compare env password (u_password u) \<longrightarrow>
      login_user env st email password = Inl (InvalidCredentials ''Invalid email or password'')) \<and>
   (login_user env st email password = Inr (token, u) \<longrightarrow>
      u_email u = email \<and> bcrypt_compare env password (u_password u))"
proof (intro conjI impI)
  assume "\<not> has_account st email ''seller''"
  then have "findOne (\<lambda>i u. u_email u = email \<and> u_role u = ''seller'') (users st) = None"
    by (auto simp: findOne_None_iff has_account_def list_ex_iff)
  then show "login_seller env st email password = Inl (InvalidCredentials ''Invalid seller credentials'')"
    by (simp add: login_seller_def)
next
  assume "findOne (\<lambda>i u. u_email u = email \<and> u_role u = ''seller'') (users st) = Some (uid, u) \<and>
    \<not> bcrypt_compare env password (u_password u)"
  then show "login_seller env st email password = Inl (InvalidCredentials ''Invalid seller credentials'')"
    by (simp add: login_seller_def)
next
  assume a: "login_seller env st email password = Inr (token, u)"
  then obtain i where "findOne (\<lambda>i u. u_email u = email \<and> u_role u = ''seller'') (users st) = Some (i, u)"
    and c: "bcrypt_compare env password (u_password u)"
    by (auto simp: login_seller_def split: option.splits if_splits)
  then show "u_role u = ''seller''" "u_email u = email" "bcrypt_compare env password (u_password u)"
    using findOne_Some_holds [of "\<lambda>i u. u_email u = email \<and> u_role u = ''seller''" "users st" i u]
    by simp_all
next
  assume "\<not> has_account st email ''admin''"
  then have "findOne (\<lambda>i u. u_email u = email \<and> u_role u = ''admin'') (users st) = None"
    by (auto simp: findOne_None_iff has_account_def list_ex_iff)
  then show "login_admin env st email password = Inl (InvalidCredentials ''Invalid admin credentials'')"
    by (simp add: login_admin_def)
next
  assume "findOne (\<lambda>i u. u_email u = email \<and> u_role u = ''admin'') (users st) = Some (uid, u) \<and>
    \<not> bcrypt_compare env password (u_password u)"
  then show "login_admin env st email password = Inl (InvalidCredentials ''Invalid admin credentials'')"
    by (simp add: login_admin_def)
next
  assume a: "login_admin env st email password = Inr (token, u)"
  then obtain i where "findOne (\<lambda>i u. u_email u = email \<and> u_role u = ''admin'') (users st) = Some (i, u)"
    and c: "bcrypt_compare env password (u_password u)"
    by (auto simp: login_admin_def split: option.splits if_splits)
  then show "u_role u = ''admin''" "u_email u = email" "bcrypt_compare env password (u_password u)"
    using findOne_Some_holds [of "\<lambda>i u. u_email u = email \<and> u_role u = ''admin''" "users st" i u]
    by simp_all
next
  assume "\<forall>(i, u)\<in>set (users st). u_email u \<noteq> email"
  then have "findOne (\<lambda>i u. u_email u = email) (users st) = None"
    by (simp add: findOne_None_iff)
  then show "login_user env st email password = Inl (InvalidCredentials ''Invalid email or password'')"
    by (simp add: login_user_def)
next
  assume "findOne (\<lambda>i u. u_email u = email) (users st) = Some (uid, u) \<and>
    \<not> bcrypt_compare env password (u_password u)"
  then show "login_user env st email password = Inl (InvalidCredentials ''Invalid email or password'')"
    by (simp add: login_user_def)
next
  assume a: "login_user env st email password = Inr (token, u)"
  then obtain i where "findOne (\<lambda>i u. u_email u = email) (users st) = Some (i, u)"
    and c: "bcrypt_compare env password (u_password u)"
    by (auto simp: login_user_def split: option.splits if_splits)
  then show "u_email u = email" "bcrypt_compare env password (u_password u)"
    using findOne_Some_holds [of "\<lambda>i u. u_email u = email" "users st" i u]
    by simp_all
qed

text \<open>
  C6 as it is written fails for the user login: no account has the email of the seller
  and the role user, yet the seller logs in there and gets a token for the role seller.
\<close>

theorem login_user_any_role_counterexample:
  "\<not> has_account demo_shop ''s@x.com'' ''user'' \<and>
   login_user demo_env demo_shop ''s@x.com'' ''hunter2'' =
     Inr (''i.seller'',
          \<lparr>u_name = ''S'', u_email = ''s@x.com'', u_password = ''#hunter2'', u_role = ''seller''\<rparr>)"
  by (simp add: login_user_def findOne_def has_account_def demo_shop_def demo_env_def)

text \<open>
  A user is refused by the seller login, a seller by the admin login, a wrong password
  everywhere, an unknown email by the user login; the admin logs in as admin.
\<close>

theorem login_scope_witness:
  "login_seller demo_env demo_shop ''a@x.com'' ''secret'' =
     Inl (InvalidCredentials ''Invalid seller credentials'') \<and>
   login_seller demo_env demo_shop ''s@x.com'' ''wrong'' =
     Inl (InvalidCredentials ''Invalid seller credentials'') \<and>
   login_admin demo_env demo_shop ''s@x.com'' ''hunter2'' =
     Inl (InvalidCredentials ''Invalid admin credentials'') \<and>
   login_admin demo_env demo_shop ''r@x.com'' ''wrong'' =
     Inl (InvalidCredentials ''Invalid admin credentials'') \<and>
   login_user demo_env demo_shop ''nobody@x.com'' ''secret'' =
     Inl (InvalidCredentials ''Invalid email or password'') \<and>
   login_user demo_env demo_shop ''a@x.com'' ''wrong'' =
     Inl (InvalidCredentials ''Invalid email or password'') \<and>
   (login_admin demo_env demo_shop ''r@x.com'' ''root'' =
      Inr (''ii.admin'', \<lparr>u_name = ''R'', u_email = ''r@x.com'', u_password = ''#root'', u_role = ''admin''\<rparr>) \<and>
    u_role \<lparr>u_name = ''R'', u_email = ''r@x.com'', u_password = ''#root'', u_role = ''admin''\<rparr> = ''admin'')"
proof -
  let ?A = "\<lparr>u_name = ''A'', u_email = ''a@x.com'', u_password = ''#secret'', u_role = ''user''\<rparr>"
  let ?S = "\<lparr>u_name = ''S'', u_email = ''s@x.com'', u_password = ''#hunter2'', u_role = ''seller''\<rparr>"
  let ?R = "\<lparr>u_name = ''R'', u_email = ''r@x.com'', u_password = ''#root'', u_role = ''admin''\<rparr>"
  have n1: "\<not> has_account demo_shop ''a@x.com'' ''seller''"
    by (simp add: has_account_def demo_shop_def)
  have n2: "findOne (\<lambda>i u. u_email u = ''s@x.com'' \<and> u_role u = ''seller'') (users demo_shop) = Some (1, ?S) \<and>
      \<not> bcrypt_compare demo_env ''wrong'' (u_password ?S)"
    by (simp add: findOne_def demo_shop_def demo_env_def)
  have n3: "\<not> has_account demo_shop ''s@x.com'' ''admin''"
    by (simp add: has_account_def demo_shop_def)
  have n4: "findOne (\<lambda>i u. u_email u = ''r@x.com'' \<and> u_role u = ''admin'') (users demo_shop) = Some (2, ?R) \<and>
      \<not> bcrypt_compare demo_env ''wrong'' (u_password ?R)"
    by (simp add: findOne_def demo_shop_def demo_env_def)
  have n5: "\<forall>(i, u)\<in>set (users demo_shop). u_email u \<noteq> ''nobody@x.com''"
    by (simp add: demo_shop_def)
  have n6: "findOne (\<lambda>i u. u_email u = ''a@x.com'') (users demo_shop) = Some (0, ?A) \<and>
      \<not> bcrypt_compare demo_env ''wrong'' (u_password ?A)"
    by (simp add: findOne_def demo_shop_def demo_env_def)
  have n7: "login_admin demo_env demo_shop ''r@x.com'' ''root'' = Inr (''ii.admin'', ?R)"
    by (simp add: login_admin_def findOne_def demo_shop_def demo_env_def eval_nat_numeral)
  have c1: "login_seller demo_env demo_shop ''a@x.com'' ''secret'' =
     Inl (InvalidCredentials ''Invalid seller credentials'')"
    using login_scope [where st = demo_shop and env = demo_env and email = "''a@x.com''"] n1
    by blast
  have c2: "login_seller demo_env demo_shop ''s@x.com'' ''wrong'' =
     Inl (InvalidCredentials ''Invalid seller credentials'')"
    using login_scope [where st = demo_shop and env = demo_env and email = "''s@x.com''"
        and uid = 1 and u = ?S and password = "''wrong''"] n2
    by blast
  have c3: "login_admin demo_env demo_shop ''s@x.com'' ''hunter2'' =
     Inl (InvalidCredentials ''Invalid admin credentials'')"
    using login_scope [where st = demo_shop and env = demo_env and email = "''s@x.com''"] n3
    by blast
  have c4: "login_admin demo_env demo_shop ''r@x.com'' ''wrong'' =
     Inl (InvalidCredentials ''Invalid admin credentials'')"
    using login_scope [where st = demo_shop and env = demo_env and email = "''r@x.com''"
        and uid = 2 and u = ?R and password = "''wrong''"] n4
    by blast
  have c5: "login_user demo_env demo_shop ''nobody@x.com'' ''secret'' =
     Inl (InvalidCredentials ''Invalid email or password'')"
    using login_scope [where st = demo_shop and env = demo_env and email = "''nobody@x.com''"] n5
    by blast
  have c6: "login_user demo_env demo_shop ''a@x.com'' ''wrong'' =
     Inl (InvalidCredentials ''Invalid email or password'')"
    using login_scope [where st = demo_shop and env = demo_env and email = "''a@x.com''"
        and uid = 0 and u = ?A and password = "''wrong''"] n6
    by blast
  have c7: "u_role ?R = ''admin''"
    using login_scope [where st = demo_shop and env = demo_env and email = "''r@x.com''"
        and u = ?R and password = "''root''" and token = "''ii.admin''"] n7
    by blast
  show ?thesis
    using c1 c2 c3 c4 c5 c6 c7 n7 by simp
qed




section \<open>Routes without a role check: proofs\<close>

text \<open>
  C9. The route that creates an admin ignores the Authorization header: it never
  answers with the unauthenticated or the forbidden error, and when no account has the
  email it saves an account with the role admin.
\<close>

theorem create_admin_open:
  "fst (route_create_admin env st authorization name email password) \<noteq> Inl (Unauthenticated m) \<and>
   fst (route_create_admin env st authorization name email password) \<noteq> Inl (Forbidden m) \<and>
   ((\<forall>(i, u)\<in>set (users st). u_email u \<noteq> email) \<longrightarrow>
      (\<exists>admin st'. route_create_admin env st authorization name email password = (Inr admin, st') \<and>
         u_role admin = ''admin'' \<and> u_email admin = email \<and>
         users st' = users st @ [(new_id (users st), admin)]))"
proof (intro conjI impI)
  show "fst (route_create_admin env st authorization name email password) \<noteq> Inl (Unauthenticated m)"
    by (simp add: route_create_admin_def create_admin_def Let_def split: option.splits)
  show "fst (route_create_admin env st authorization name email password) \<noteq> Inl (Forbidden m)"
    by (simp add: route_create_admin_def create_admin_def Let_def split: option.splits)
next
  assume "\<forall>(i, u)\<in>set (users st). u_email u \<noteq> email"
  then have "findOne (\<lambda>i u. u_email u = email) (users st) = None"
    by (simp add: findOne_None_iff)
  then show "\<exists>admin st'. route_create_admin env st authorization name email password = (Inr admin, st') \<and>
         u_role admin = ''admin'' \<and> u_email admin = email \<and>
         users st' = users st @ [(new_id (users st), admin)]"
    by (simp add: route_create_admin_def create_admin_def save_new_def Let_def)
qed

text \<open>
  An admin is created for a request without a header and for one with the token of a
  user.
\<close>

theorem create_admin_open_witness:
  "(\<exists>admin st'. route_create_admin demo_env demo_shop None ''M'' ''m@x.com'' ''pw'' = (Inr admin, st') \<and>
      u_role admin = ''admin'') \<and>
   (\<exists>admin st'. route_create_admin demo_env demo_shop (Some ''Bearer .user'') ''M'' ''m@x.com'' ''pw'' =
        (Inr admin, st') \<and> u_role admin = ''admin'')"
proof -
  have h: "\<forall>(i, u)\<in>set (users demo_shop). u_email u \<noteq> ''m@x.com''"
    by (simp add: demo_shop_def)
  show ?thesis
    using create_admin_open [where st = demo_shop and env = demo_env and email = "''m@x.com''"
        and name = "''M''" and password = "''pw''" and authorization = None]
      create_admin_open [where st = demo_shop and env = demo_env and email = "''m@x.com''"
        and name = "''M''" and password = "''pw''" and authorization = "Some ''Bearer .user''"] h
    by blast
qed

lemma authenticate_Inl: "authenticate env st authorization = Inl e \<Longrightarrow> \<exists>m. e = Unauthenticated m"
  by (auto simp: authenticate_def split: option.splits if_splits)

lemma buy_Inl:
  "fst (buy st uid body_products addr) = Inl e \<Longrightarrow>
   (\<exists>m. e = InvalidRequest m) \<or> (\<exists>i. e = ProductNotFound i) \<or> (\<exists>n. e = InsufficientStock n)"
proof (cases body_products)
  case None
  assume "fst (buy st uid body_products addr) = Inl e"
  then have "e = InvalidRequest ''No products to buy''" using None by (auto simp: buy_def)
  then show ?thesis by blast
next
  case (Some items)
  assume a: "fst (buy st uid body_products addr) = Inl e"
  obtain r ps' where loop: "buy_loop (products st) items [] 0 = (r, ps')"
    by (cases "buy_loop (products st) items [] 0")
  show ?thesis
  proof (cases "items = []")
    case True
    then have "e = InvalidRequest ''No products to buy''" using a Some by (auto simp: buy_def)
    then show ?thesis by blast
  next
    case False
    then have "r = Inl e" using a Some loop
      by (cases r) (auto simp: buy_def save_new_def Let_def)
    then show ?thesis using buy_loop_Inl_split [of "products st" items "[]" 0 e ps'] loop
      by (auto split: option.splits)
  qed
qed

lemma cancel_Inl:
  "fst (cancel st uid oid) = Inl e \<Longrightarrow> (\<exists>m. e = NotFound m) \<or> (\<exists>m. e = InvalidTransition m)"
  by (auto simp: cancel_def Let_def split: option.splits if_splits)

text \<open>
  C10. The buy and cancel routes never answer with the forbidden error, and for any
  authenticated account they run the handler for that account, whatever its role.
\<close>

theorem buy_cancel_any_role:
  "fst (route_buy env st authorization body_products shippingAddress) \<noteq> Inl (Forbidden m) \<and>
   fst (route_cancel env st authorization oid) \<noteq> Inl (Forbidden m) \<and>
   (authenticate env st authorization = Inr (uid, user) \<longrightarrow>
      route_buy env st authorization body_products shippingAddress =
        buy st uid body_products shippingAddress \<and>
      route_cancel env st authorization oid = cancel st uid oid)"
proof (intro conjI impI)
  show "fst (route_buy env st authorization body_products shippingAddress) \<noteq> Inl (Forbidden m)"
  proof (cases "authenticate env st authorization")
    case (Inl e)
    then show ?thesis using authenticate_Inl [OF Inl] by (auto simp: route_buy_def)
  next
    case (Inr a)
    then show ?thesis
      using buy_Inl [of st "fst a" body_products shippingAddress "Forbidden m"]
      by (cases a) (auto simp: route_buy_def)
  qed
  show "fst (route_cancel env st authorization oid) \<noteq> Inl (Forbidden m)"
  proof (cases "authenticate env st authorization")
    case (Inl e)
    then show ?thesis using authenticate_Inl [OF Inl] by (auto simp: route_cancel_def)
  next
    case (Inr a)
    then show ?thesis
      using cancel_Inl [of st "fst a" oid "Forbidden m"]
      by (cases a) (auto simp: route_cancel_def)
  qed
next
  assume "authenticate env st authorization = Inr (uid, user)"
  then show "route_buy env st authorization body_products shippingAddress =
        buy st uid body_products shippingAddress"
    by (simp add: route_buy_def)
next
  assume "authenticate env st authorization = Inr (uid, user)"
  then show "route_cancel env st authorization oid = cancel st uid oid"
    by (simp add: route_cancel_def)
qed

lemma demo_authenticate:
  "authenticate demo_env demo_shop (Some ''Bearer i.seller'') =
     Inr (1, \<lparr>u_name = ''S'', u_email = ''s@x.com'', u_password = ''#hunter2'', u_role = ''seller''\<rparr>)"
  "authenticate demo_env demo_shop (Some ''Bearer ii.admin'') =
     Inr (2, \<lparr>u_name = ''R'', u_email = ''r@x.com'', u_password = ''#root'', u_role = ''admin''\<rparr>)"
  by (simp_all add: authenticate_def demo_env_def demo_shop_def findById_def)

text \<open>
  The seller's token reaches the buy handler and the admin's the cancel handler; the
  admin places an order.
\<close>

theorem buy_cancel_any_role_witness:
  "route_buy demo_env demo_shop (Some ''Bearer i.seller'')
       (Some [\<lparr>productId = 0, quantity = 3\<rparr>]) ''1 Main St'' =
     buy demo_shop 1 (Some [\<lparr>productId = 0, quantity = 3\<rparr>]) ''1 Main St'' \<and>
   route_cancel demo_env demo_shop (Some ''Bearer ii.admin'') 0 = cancel demo_shop 2 0 \<and>
   (\<exists>oid ord st'. route_buy demo_env demo_shop (Some ''Bearer ii.admin'')
       (Some [\<lparr>productId = 0, quantity = 3\<rparr>]) ''1 Main St'' = (Inr (oid, ord), st') \<and> o_userId ord = 2)"
proof -
  have c1: "route_buy demo_env demo_shop (Some ''Bearer i.seller'')
       (Some [\<lparr>productId = 0, quantity = 3\<rparr>]) ''1 Main St'' =
     buy demo_shop 1 (Some [\<lparr>productId = 0, quantity = 3\<rparr>]) ''1 Main St''"
    using buy_cancel_any_role [where env = demo_env and st = demo_shop
        and authorization = "Some ''Bearer i.seller''" and uid = 1] demo_authenticate(1)
    by blast
  have c2: "route_cancel demo_env demo_shop (Some ''Bearer ii.admin'') 0 = cancel demo_shop 2 0"
    using buy_cancel_any_role [where env = demo_env and st = demo_shop
        and authorization = "Some ''Bearer ii.admin''" and uid = 2] demo_authenticate(2)
    by blast
  have c3: "route_buy demo_env demo_shop (Some ''Bearer ii.admin'')
       (Some [\<lparr>productId = 0, quantity = 3\<rparr>]) ''1 Main St'' =
     buy demo_shop 2 (Some [\<lparr>productId = 0, quantity = 3\<rparr>]) ''1 Main St''"
    using buy_cancel_any_role [where env = demo_env and st = demo_shop
        and authorization = "Some ''Bearer ii.admin''" and uid = 2] demo_authenticate(2)
    by blast
  have "\<exists>oid ord st'. buy demo_shop 2 (Some [\<lparr>productId = 0, quantity = 3\<rparr>]) ''1 Main St'' =
      (Inr (oid, ord), st') \<and> o_userId ord = 2"
    by (simp add: buy_def demo_shop_def findById_def save_new_def new_Order_def Let_def)
  then show ?thesis using c1 c2 c3 by simp
qed

section \<open>Search: proofs\<close>

lemma match_here_literal:
  "CHR ''.'' \<notin> set pat \<Longrightarrow> match_here pat s = prefix pat s"
  by (induction pat s rule: match_here.induct) auto

lemma match_anywhere_literal:
  "CHR ''.'' \<notin> set pat \<Longrightarrow> match_anywhere pat s = sublist pat s"
  by (induction s) (auto simp: match_here_literal sublist_Cons_right)

lemma toLowerCase_dot: "toLowerCase c = CHR ''.'' \<Longrightarrow> c = CHR ''.''"
  by (cases c) (auto simp: Let_def of_bool_def split: if_splits)

lemma regex_i_plain:
  assumes "plain (Some pat)"
  shows "regex_i engine pat s = contains_ci pat s"
proof -
  have ops: "\<not> list_ex (\<lambda>c. c \<in> set regex_operators) pat"
    using assms by (auto simp: plain_def list_ex_iff)
  have "CHR ''.'' \<notin> set pat"
    using assms by (auto simp: plain_def list_ex_iff)
  then have "CHR ''.'' \<notin> set (map toLowerCase pat)"
    by (metis (no_types) imageE list.set_map toLowerCase_dot)
  then show ?thesis
    using ops by (simp add: regex_i_def contains_ci_def match_anywhere_literal)
qed

lemma contains_ci_empty: "contains_ci [] s"
  by (simp add: contains_ci_def)

lemma search_filter_plain:
  assumes "plain (q_name q)" and "plain (q_color q)"
  shows "search_filter engine q p = literal_filter q p"
proof -
  have n: "(case q_name q of None \<Rightarrow> True
            | Some name \<Rightarrow> if name = [] then True else regex_i engine name (p_name p)) =
           (case q_name q of None \<Rightarrow> True | Some name \<Rightarrow> contains_ci name (p_name p))"
    using assms(1) by (auto simp: regex_i_plain contains_ci_empty split: option.splits)
  have c: "(case q_color q of None \<Rightarrow> True
            | Some color \<Rightarrow> if color = [] then True else regex_i engine color (p_color p)) =
           (case q_color q of None \<Rightarrow> True | Some color \<Rightarrow> contains_ci color (p_color p))"
    using assms(2) by (auto simp: regex_i_plain contains_ci_empty split: option.splits)
  have b: "(if q_minPrice q \<noteq> None \<or> q_maxPrice q \<noteq> None
       then (case q_minPrice q of None \<Rightarrow> True | Some lo \<Rightarrow> lo \<le> p_price p) \<and>
            (case q_maxPrice q of None \<Rightarrow> True | Some hi \<Rightarrow> p_price p \<le> hi)
       else True) =
      ((case q_minPrice q of None \<Rightarrow> True | Some lo \<Rightarrow> lo \<le> p_price p) \<and>
       (case q_maxPrice q of None \<Rightarrow> True | Some hi \<Rightarrow> p_price p \<le> hi))"
    by (auto split: option.splits)
  show ?thesis
    unfolding search_filter_def literal_filter_def n c b by simp
qed

text \<open>
  C8, amended. For name and colour parameters without special characters of regular
  expressions, the search returns exactly the products that satisfy all the filters
  given, where a text filter asks that the parameter be part of the field, letter case
  aside, and the price bounds are inclusive. Without any filter it returns the whole
  catalog, and with both bounds equal it returns the products of exactly that price.
\<close>

theorem search_plain_patterns:
  "(plain (q_name q) \<and> plain (q_color q) \<longrightarrow>
      search engine st q = filter (\<lambda>(i, p). literal_filter q p) (products st)) \<and>
   search engine st \<lparr>q_name = None, q_minPrice = None, q_maxPrice = None, q_color = None\<rparr> =
     products st \<and>
   search engine st \<lparr>q_name = None, q_minPrice = Some x, q_maxPrice = Some x, q_color = None\<rparr> =
     filter (\<lambda>(i, p). p_price p = x) (products st)"
proof (intro conjI impI)
  assume "plain (q_name q) \<and> plain (q_color q)"
  then show "search engine st q = filter (\<lambda>(i, p). literal_filter q p) (products st)"
    by (simp add: search_def search_filter_plain)
next
  show "search engine st \<lparr>q_name = None, q_minPrice = None, q_maxPrice = None, q_color = None\<rparr> =
     products st"
    by (simp add: search_def search_filter_def)
next
  have "search_filter engine \<lparr>q_name = None, q_minPrice = Some x, q_maxPrice = Some x, q_color = None\<rparr> p
      = (p_price p = x)" for p
    by (auto simp: search_filter_def)
  then show "search engine st \<lparr>q_name = None, q_minPrice = Some x, q_maxPrice = Some x, q_color = None\<rparr> =
     filter (\<lambda>(i, p). p_price p = x) (products st)"
    by (simp add: search_def)
qed

text \<open>
  C8 as it is written fails for a parameter with a special character, which the database
  reads as a regular expression: the name parameter p.n finds the pen, whose name does
  not contain the text p.n.
\<close>

theorem search_regex_counterexample:
  "search no_engine demo_shop
       \<lparr>q_name = Some ''p.n'', q_minPrice = None, q_maxPrice = None, q_color = None\<rparr> =
     [(0, \<lparr>p_name = ''pen'', p_price = 20, p_description = ''a pen'', p_color = ''Blue'',
           p_quantity = 5\<rparr>)] \<and>
   \<not> contains_ci ''p.n'' ''pen''"
  by (simp add: search_def search_filter_def regex_i_def regex_operators_def demo_shop_def
        contains_ci_def sublist_Cons_right)

text \<open>
  The pen is found by a part of its name in capitals, a part of its colour in lower case
  and a lower bound; bounds of 20 and 20 find the product that costs 20.
\<close>

theorem search_plain_patterns_witness:
  "search no_engine demo_shop
       \<lparr>q_name = Some ''EN'', q_minPrice = Some 10, q_maxPrice = None, q_color = Some ''blu''\<rparr> =
     [(0, \<lparr>p_name = ''pen'', p_price = 20, p_description = ''a pen'', p_color = ''Blue'',
           p_quantity = 5\<rparr>)] \<and>
   search no_engine demo_shop
       \<lparr>q_name = None, q_minPrice = Some 20, q_maxPrice = Some 20, q_color = None\<rparr> =
     [(0, \<lparr>p_name = ''pen'', p_price = 20, p_description = ''a pen'', p_color = ''Blue'',
           p_quantity = 5\<rparr>)]"
proof -
  let ?q = "\<lparr>q_name = Some ''EN'', q_minPrice = Some 10, q_maxPrice = None, q_color = Some ''blu''\<rparr>"
  have h: "plain (q_name ?q) \<and> plain (q_color ?q)"
    by (simp add: plain_def regex_operators_def)
  have c1: "search no_engine demo_shop ?q = filter (\<lambda>(i, p). literal_filter ?q p) (products demo_shop)"
    using search_plain_patterns [where q = ?q and st = demo_shop and engine = no_engine, THEN conjunct1, THEN mp, OF h] .
  have c2: "search no_engine demo_shop
       \<lparr>q_name = None, q_minPrice = Some 20, q_maxPrice = Some 20, q_color = None\<rparr> =
     filter (\<lambda>(i, p). p_price p = 20) (products demo_shop)"
    using search_plain_patterns [where st = demo_shop and x = 20 and engine = no_engine, THEN conjunct2, THEN conjunct2] .
  show ?thesis
    unfolding c1 c2
    by (simp add: demo_shop_def literal_filter_def contains_ci_def sublist_Cons_right)
qed

end
